theory Spec2Isabelle
  imports Complex_Main "HOL-Library.Log_Nat"
begin

section \<open>Python values used by main.py\<close>

text \<open>
  A Python \<^verbatim>\<open>str\<close> is a sequence of Unicode code points; the literals of main.py are
  Ukrainian, so they are written here as lists of code points.
\<close>

type_synonym str = "nat list"

text \<open>
  A Python \<^verbatim>\<open>float\<close> is an IEEE-754 binary64 number. \<open>Num q\<close> is the finite double
  of exact value \<open>q\<close> (\<open>Num 0\<close> is \<open>+0.0\<close>), \<open>NegZero\<close> is \<open>-0.0\<close>, and the NaNs are
  one value (Python code cannot tell their payloads apart).
\<close>

datatype double = Num rat | NegZero | PInf | NInf | NaN

text \<open>The exceptions the handlers can raise.\<close>

datatype error = HTTPException nat str | OverflowError

subsection \<open>Rounding to nearest, ties to even\<close>

definition pow2 :: "int \<Rightarrow> rat" where
  "pow2 k = (if 0 \<le> k then 2 ^ nat k else 1 / 2 ^ nat (- k))"

text \<open>\<open>ilog2 a\<close> is the binary exponent of \<open>a > 0\<close>: the \<open>e\<close> with \<open>2^e \<le> a < 2^(e+1)\<close>.\<close>

definition ilog2 :: "rat \<Rightarrow> int" where
  "ilog2 a = (if 1 \<le> a then bitlen \<lfloor>a\<rfloor> - 1 else - bitlen (\<lceil>1 / a\<rceil> - 1))"

definition round_half_even :: "rat \<Rightarrow> int" where
  "round_half_even x =
     (let f = \<lfloor>x\<rfloor>; r = x - of_int f
      in if r < 1 / 2 then f else if 1 / 2 < r then f + 1
         else if even f then f else f + 1)"

text \<open>
  The double nearest to the exact value \<open>q\<close>: 53 significant bits, least exponent
  \<open>-1022\<close> (below it the spacing stays \<open>2^-1074\<close>: subnormals), and an infinity when the
  rounded value reaches \<open>2^1024\<close>. A non-zero value that rounds to zero keeps its sign.
\<close>

definition round_double :: "rat \<Rightarrow> double" where
  "round_double q =
     (if q = 0 then Num 0
      else
        let a = \<bar>q\<bar>; e = max (ilog2 a) (- 1022); u = pow2 (e - 52);
            n = round_half_even (a / u); v = of_int n * u
        in if pow2 1024 \<le> v then (if 0 < q then PInf else NInf)
           else if n = 0 then (if 0 < q then Num 0 else NegZero)
           else Num (if 0 < q then v else - v))"

text \<open>
  \<open>Num q\<close> is a genuine double exactly when rounding leaves it alone:
  \<open>round_double q = Num q\<close>.
\<close>

subsection \<open>Float arithmetic\<close>

fun fadd :: "double \<Rightarrow> double \<Rightarrow> double" where
  "fadd NaN b = NaN"
| "fadd a NaN = NaN"
| "fadd PInf NInf = NaN"
| "fadd NInf PInf = NaN"
| "fadd PInf b = PInf"
| "fadd a PInf = PInf"
| "fadd NInf b = NInf"
| "fadd a NInf = NInf"
| "fadd NegZero NegZero = NegZero"
| "fadd NegZero (Num y) = round_double y"
| "fadd (Num x) NegZero = round_double x"
| "fadd (Num x) (Num y) = round_double (x + y)"

fun fneg :: "double \<Rightarrow> double" where
  "fneg (Num x) = (if x = 0 then NegZero else Num (- x))"
| "fneg NegZero = Num 0"
| "fneg PInf = NInf"
| "fneg NInf = PInf"
| "fneg NaN = NaN"

definition fsub :: "double \<Rightarrow> double \<Rightarrow> double" where
  "fsub a b = fadd a (fneg b)"

definition is_zero :: "double \<Rightarrow> bool" where
  "is_zero d = (d = Num 0 \<or> d = NegZero)"

definition is_inf :: "double \<Rightarrow> bool" where
  "is_inf d = (d = PInf \<or> d = NInf)"

definition negative :: "double \<Rightarrow> bool" where
  "negative d = (case d of Num x \<Rightarrow> x < 0 | NegZero \<Rightarrow> True | NInf \<Rightarrow> True | _ \<Rightarrow> False)"

definition fval :: "double \<Rightarrow> rat" where
  "fval d = (case d of Num x \<Rightarrow> x | _ \<Rightarrow> 0)"

definition fmul :: "double \<Rightarrow> double \<Rightarrow> double" where
  "fmul a b =
     (if a = NaN \<or> b = NaN then NaN
      else if is_inf a \<or> is_inf b then
        (if is_zero a \<or> is_zero b then NaN
         else if negative a \<noteq> negative b then NInf else PInf)
      else if is_zero a \<or> is_zero b then
        (if negative a \<noteq> negative b then NegZero else Num 0)
      else round_double (fval a * fval b))"

text \<open>
  Mixed arithmetic converts the \<^verbatim>\<open>int\<close> operand to a float first. The conversion rounds
  to nearest-even and raises \<^verbatim>\<open>OverflowError\<close> ("int too large to convert to float")
  when the rounded value would not be finite, that is from \<open>2^1024 - 2^970\<close> on
  (half-way between the largest double and \<open>2^1024\<close>, where the tie goes up).
\<close>

definition int_to_double :: "int \<Rightarrow> error + double" where
  "int_to_double n =
     (if 2 ^ 1024 - 2 ^ 970 \<le> \<bar>n\<bar> then Inl OverflowError
      else Inr (round_double (of_int n)))"

text \<open>\<^verbatim>\<open>x * n\<close> for a float \<open>x\<close> and an int \<open>n\<close>, and \<^verbatim>\<open>n * x\<close>.\<close>

definition mul_float_int :: "double \<Rightarrow> int \<Rightarrow> error + double" where
  "mul_float_int x n =
     (case int_to_double n of Inl e \<Rightarrow> Inl e | Inr d \<Rightarrow> Inr (fmul x d))"

definition mul_int_float :: "int \<Rightarrow> double \<Rightarrow> error + double" where
  "mul_int_float n x =
     (case int_to_double n of Inl e \<Rightarrow> Inl e | Inr d \<Rightarrow> Inr (fmul d x))"

subsection \<open>The builtin sum on floats\<close>

text \<open>
  What \<^verbatim>\<open>sum\<close> returns for floats depends on the interpreter, and main.py names none.
  Up to CPython 3.11 it adds from left to right, starting at \<open>0\<close>.
\<close>

definition sum_plain :: "double list \<Rightarrow> double" where
  "sum_plain xs = foldl fadd (Num 0) xs"

text \<open>
  From CPython 3.12 on it also carries the rounding errors of the additions in a
  correction term \<open>c\<close> (Neumaier's summation) and adds the term at the end, unless it is
  zero or not finite. The comparison \<^verbatim>\<open>fabs(f) >= fabs(x)\<close> is false when a NaN is
  involved. The first float is added to the integer \<open>0\<close> before the loop starts.
\<close>

fun fabs :: "double \<Rightarrow> double" where
  "fabs (Num x) = Num \<bar>x\<bar>"
| "fabs NegZero = Num 0"
| "fabs PInf = PInf"
| "fabs NInf = PInf"
| "fabs NaN = NaN"

fun fge :: "double \<Rightarrow> double \<Rightarrow> bool" where
  "fge NaN b = False"
| "fge a NaN = False"
| "fge PInf b = True"
| "fge a NInf = True"
| "fge NInf b = False"
| "fge a PInf = False"
| "fge a b = (fval b \<le> fval a)"

definition is_finite :: "double \<Rightarrow> bool" where
  "is_finite d = (case d of Num x \<Rightarrow> True | NegZero \<Rightarrow> True | _ \<Rightarrow> False)"

fun neumaier :: "double \<Rightarrow> double \<Rightarrow> double list \<Rightarrow> double" where
  "neumaier f c [] = (if \<not> is_zero c \<and> is_finite c then fadd f c else f)"
| "neumaier f c (x # xs) =
     (let t = fadd f x;
          c' = (if fge (fabs f) (fabs x) then fadd c (fadd (fsub f t) x)
                else fadd c (fadd (fsub x t) f))
      in neumaier t c' xs)"

definition sum_compensated :: "double list \<Rightarrow> double" where
  "sum_compensated xs =
     (case xs of [] \<Rightarrow> Num 0 | x # rest \<Rightarrow> neumaier (fadd (Num 0) x) (Num 0) rest)"

text \<open>\<^verbatim>\<open>s.endswith(suffix)\<close>.\<close>

definition endswith :: "str \<Rightarrow> str \<Rightarrow> bool" where
  "endswith s suffix =
     (length suffix \<le> length s \<and> drop (length s - length suffix) s = suffix)"

section \<open>Data model (the pydantic models of main.py)\<close>

text \<open>
  Field names are the source's, except where two models share a name: \<open>prod_id\<close> is
  \<^verbatim>\<open>Product.id\<close>, \<open>addr_id\<close> is \<^verbatim>\<open>DeliveryAddress.id\<close>, \<open>info_user_id\<close> is
  \<^verbatim>\<open>DeliveryInfo.user_id\<close>. The two \<^verbatim>\<open>id\<close> fields are filled in (by \<^verbatim>\<open>uuid4\<close> when the
  client sent none) before a handler runs, so a handler always sees one.
\<close>

record Product =
  prod_id :: str
  name :: str
  price :: double
  quantity :: int

record Cart =
  user_id :: str
  items :: "Product list"
  total :: double

record DeliveryAddress =
  addr_id :: str
  street :: str
  city :: str
  postal_code :: str
  country :: str

record DeliveryCostRequest =
  address :: DeliveryAddress

record DeliveryCostResponse =
  cost :: double

record DeliveryInfo =
  order_id :: str
  info_user_id :: str
  delivery_address :: DeliveryAddress
  delivery_cost :: double
  status :: str

record AvailabilityCheckRequest =
  region :: str
  product_id :: str

record AvailabilityCheckResponse =
  available :: bool
  message :: str

text \<open>The three in-memory dictionaries.\<close>

record stores =
  carts :: "str \<rightharpoonup> Cart"
  user_addresses :: "str \<rightharpoonup> DeliveryAddress list"
  deliveries :: "str \<rightharpoonup> DeliveryInfo"

definition empty_stores :: stores where
  "empty_stores = \<lparr>carts = Map.empty, user_addresses = Map.empty, deliveries = Map.empty\<rparr>"

text \<open>\<^verbatim>\<open>Cart(user_id=user_id)\<close>: no items, total \<open>0.0\<close>.\<close>

definition new_cart :: "str \<Rightarrow> Cart" where
  "new_cart uid = \<lparr>user_id = uid, items = [], total = Num 0\<rparr>"

subsection \<open>String literals of the source\<close>

text \<open>The \<^verbatim>\<open>detail\<close> of the two 404 errors of \<^verbatim>\<open>remove_product_from_cart\<close>.\<close>

definition detail_cart_not_found :: str where
  "detail_cart_not_found =
     [1050, 1086, 1096, 1080, 1082, 32, 1085, 1077, 32, 1079, 1085, 1072, 1081, 1076,
      1077, 1085, 1086]"

definition detail_product_not_found :: str where
  "detail_product_not_found =
     [1058, 1086, 1074, 1072, 1088, 32, 1085, 1077, 32, 1079, 1085, 1072, 1081, 1076,
      1077, 1085, 1086, 32, 1074, 32, 1082, 1086, 1096, 1080, 1082, 1091]"

text \<open>The \<^verbatim>\<open>detail\<close> of the 400 error of \<^verbatim>\<open>checkout\<close> ("the cart is empty").\<close>

definition detail_cart_empty :: str where
  "detail_cart_empty =
     [1050, 1086, 1096, 1080, 1082, 32, 1087, 1086, 1088, 1086, 1078, 1085, 1110, 1081]"

definition detail_delivery_not_found :: str where
  "detail_delivery_not_found =
     [1030, 1085, 1092, 1086, 1088, 1084, 1072, 1094, 1110, 1102, 32, 1087, 1088, 1086,
      32, 1076, 1086, 1089, 1090, 1072, 1074, 1082, 1091, 32, 1085, 1077, 32, 1079,
      1085, 1072, 1081, 1076, 1077, 1085, 1086]"

text \<open>The two messages of \<^verbatim>\<open>check_delivery_availability\<close>.\<close>

definition msg_unavailable :: str where
  "msg_unavailable =
     [1058, 1086, 1074, 1072, 1088, 32, 1085, 1077, 1076, 1086, 1089, 1090, 1091, 1087,
      1085, 1080, 1081, 32, 1076, 1083, 1103, 32, 1076, 1086, 1089, 1090, 1072, 1074,
      1082, 1080, 32, 1074, 32, 1076, 1072, 1085, 1080, 1081, 32, 1088, 1077, 1075,
      1110, 1086, 1085]"

definition msg_available :: str where
  "msg_available =
     [1058, 1086, 1074, 1072, 1088, 32, 1076, 1086, 1089, 1090, 1091, 1087, 1085, 1080,
      1081, 32, 1076, 1083, 1103, 32, 1076, 1086, 1089, 1090, 1072, 1074, 1082, 1080]"

text \<open>
  The lower-case country and region literals: "Ukraine" in Ukrainian (U+0443 U+043A
  U+0440 U+0430 U+0457 U+043D U+0430) and "East" (U+0441 U+0445 U+0456 U+0434).
\<close>

definition ukraina :: str where
  "ukraina = [1091, 1082, 1088, 1072, 1111, 1085, 1072]"

definition skhid :: str where
  "skhid = [1089, 1093, 1110, 1076]"

text \<open>The literals \<^verbatim>\<open>"Processing"\<close> and \<^verbatim>\<open>"1"\<close>.\<close>

definition processing :: str where
  "processing = [80, 114, 111, 99, 101, 115, 115, 105, 110, 103]"

definition digit_one :: str where
  "digit_one = [49]"

section \<open>The handlers\<close>

text \<open>
  A handler takes the stores and its arguments and returns its response, or the
  exception it raised, together with the stores as it left them.
\<close>

subsection \<open>Cart\<close>

definition get_cart :: "stores \<Rightarrow> str \<Rightarrow> Cart \<times> stores" where
  "get_cart s uid =
     (case carts s uid of
        Some cart \<Rightarrow> (cart, s)
      | None \<Rightarrow>
          let cart = new_cart uid
          in (cart, s\<lparr>carts := (carts s)(uid \<mapsto> cart)\<rparr>))"

text \<open>
  \<^verbatim>\<open>add_product_to_cart\<close> appends the product to the stored cart before it computes
  \<^verbatim>\<open>product.price * product.quantity\<close>: when that raises, the item stays in the cart.
\<close>

definition add_product_to_cart :: "stores \<Rightarrow> str \<Rightarrow> Product \<Rightarrow> (error + Cart) \<times> stores" where
  "add_product_to_cart s uid product =
     (let cart = (case carts s uid of Some c \<Rightarrow> c | None \<Rightarrow> new_cart uid);
          cart1 = cart\<lparr>items := items cart @ [product]\<rparr>;
          s1 = s\<lparr>carts := (carts s)(uid \<mapsto> cart1)\<rparr>
      in case mul_float_int (price product) (quantity product) of
           Inl e \<Rightarrow> (Inl e, s1)
         | Inr c \<Rightarrow>
             let cart2 = cart1\<lparr>total := fadd (total cart1) c\<rparr>
             in (Inr cart2, s1\<lparr>carts := (carts s1)(uid \<mapsto> cart2)\<rparr>))"

text \<open>
  \<^verbatim>\<open>remove_product_from_cart\<close>: the loop with \<^verbatim>\<open>break\<close> is \<open>find\<close>; \<^verbatim>\<open>list.remove\<close>
  deletes the first element equal to the one found. The item is removed before the
  total is recomputed.
\<close>

definition remove_product_from_cart :: "stores \<Rightarrow> str \<Rightarrow> str \<Rightarrow> (error + Cart) \<times> stores" where
  "remove_product_from_cart s uid pid =
     (case carts s uid of
        None \<Rightarrow> (Inl (HTTPException 404 detail_cart_not_found), s)
      | Some cart \<Rightarrow>
          (case find (\<lambda>item. prod_id item = pid) (items cart) of
             None \<Rightarrow> (Inl (HTTPException 404 detail_product_not_found), s)
           | Some product_to_remove \<Rightarrow>
               let cart1 = cart\<lparr>items := remove1 product_to_remove (items cart)\<rparr>;
                   s1 = s\<lparr>carts := (carts s)(uid \<mapsto> cart1)\<rparr>
               in case mul_float_int (price product_to_remove) (quantity product_to_remove) of
                    Inl e \<Rightarrow> (Inl e, s1)
                  | Inr c \<Rightarrow>
                      let cart2 = cart1\<lparr>total := fsub (total cart1) c\<rparr>
                      in (Inr cart2, s1\<lparr>carts := (carts s1)(uid \<mapsto> cart2)\<rparr>)))"

text \<open>
  The generator \<^verbatim>\<open>item.quantity * item.price for item in cart.items\<close>, as \<^verbatim>\<open>sum\<close>
  consumes it: the products in order, up to the first one that raises.
\<close>

fun generator_costs :: "Product list \<Rightarrow> error + double list" where
  "generator_costs [] = Inr []"
| "generator_costs (item # rest) =
     (case mul_int_float (quantity item) (price item) of
        Inl e \<Rightarrow> Inl e
      | Inr c \<Rightarrow>
          (case generator_costs rest of Inl e \<Rightarrow> Inl e | Inr cs \<Rightarrow> Inr (c # cs)))"

definition base_cost :: double where
  "base_cost = Num 5"

text \<open>
  \<^verbatim>\<open>checkout\<close>. \<open>fsum\<close> is the builtin \<^verbatim>\<open>sum\<close> of the interpreter on a list of floats
  (\<open>sum_plain\<close> or \<open>sum_compensated\<close>); \<open>oid\<close> is the string that \<^verbatim>\<open>str(uuid.uuid4())\<close>
  returned for this call.
\<close>

definition checkout ::
  "(double list \<Rightarrow> double) \<Rightarrow> stores \<Rightarrow> str \<Rightarrow> DeliveryAddress \<Rightarrow> str
     \<Rightarrow> (error + DeliveryInfo) \<times> stores" where
  "checkout fsum s uid addr oid =
     (case carts s uid of
        None \<Rightarrow> (Inl (HTTPException 400 detail_cart_empty), s)
      | Some cart \<Rightarrow>
          if length (items cart) = 0 then (Inl (HTTPException 400 detail_cart_empty), s)
          else
            (case generator_costs (items cart) of
               Inl e \<Rightarrow> (Inl e, s)
             | Inr cs \<Rightarrow>
                 let delivery_info =
                       \<lparr>order_id = oid, info_user_id = uid, delivery_address = addr,
                        delivery_cost = fadd base_cost (fsum cs), status = processing\<rparr>
                 in (Inr delivery_info,
                     s\<lparr>deliveries := (deliveries s)(oid \<mapsto> delivery_info),
                       carts := (carts s)(uid \<mapsto> new_cart uid)\<rparr>)))"

subsection \<open>Delivery\<close>

text \<open>
  \<^verbatim>\<open>str.lower\<close> is the Unicode lower-casing of the Python runtime; the two handlers that
  call it take it as the parameter \<open>lower\<close>.
\<close>

definition calculate_delivery_cost :: "(str \<Rightarrow> str) \<Rightarrow> DeliveryCostRequest \<Rightarrow> DeliveryCostResponse" where
  "calculate_delivery_cost lower request =
     (if lower (country (address request)) = ukraina then \<lparr>cost = Num 5\<rparr>
      else \<lparr>cost = Num 15\<rparr>)"

definition get_delivery_info :: "stores \<Rightarrow> str \<Rightarrow> error + DeliveryInfo" where
  "get_delivery_info s oid =
     (case deliveries s oid of
        None \<Rightarrow> Inl (HTTPException 404 detail_delivery_not_found)
      | Some delivery \<Rightarrow> Inr delivery)"

definition check_delivery_availability ::
  "(str \<Rightarrow> str) \<Rightarrow> AvailabilityCheckRequest \<Rightarrow> AvailabilityCheckResponse" where
  "check_delivery_availability lower request =
     (if lower (region request) = skhid \<and> endswith (product_id request) digit_one
      then \<lparr>available = False, message = msg_unavailable\<rparr>
      else \<lparr>available = True, message = msg_available\<rparr>)"

subsection \<open>Addresses\<close>

definition get_user_addresses :: "stores \<Rightarrow> str \<Rightarrow> DeliveryAddress list" where
  "get_user_addresses s uid = (case user_addresses s uid of None \<Rightarrow> [] | Some l \<Rightarrow> l)"

definition add_delivery_address ::
  "stores \<Rightarrow> str \<Rightarrow> DeliveryAddress \<Rightarrow> DeliveryAddress list \<times> stores" where
  "add_delivery_address s uid addr =
     (let addresses = get_user_addresses s uid @ [addr]
      in (addresses, s\<lparr>user_addresses := (user_addresses s)(uid \<mapsto> addresses)\<rparr>))"

section \<open>Sequences of requests\<close>

datatype request =
    GetCart str
  | AddProduct str Product
  | RemoveProduct str str
  | Checkout str DeliveryAddress str
  | CalculateDeliveryCost DeliveryCostRequest
  | GetDeliveryInfo str
  | CheckAvailability AvailabilityCheckRequest
  | GetUserAddresses str
  | AddDeliveryAddress str DeliveryAddress

text \<open>
  The stores after one request, whatever the response was (an exception is a response:
  the server goes on with the stores as the handler left them). The three handlers that
  only read leave the stores alone. \<open>fsum\<close> is the builtin \<^verbatim>\<open>sum\<close> of the interpreter
  that serves the requests.
\<close>

fun step :: "(double list \<Rightarrow> double) \<Rightarrow> stores \<Rightarrow> request \<Rightarrow> stores" where
  "step fsum s (GetCart uid) = snd (get_cart s uid)"
| "step fsum s (AddProduct uid p) = snd (add_product_to_cart s uid p)"
| "step fsum s (RemoveProduct uid pid) = snd (remove_product_from_cart s uid pid)"
| "step fsum s (Checkout uid addr oid) = snd (checkout fsum s uid addr oid)"
| "step fsum s (CalculateDeliveryCost r) = s"
| "step fsum s (GetDeliveryInfo oid) = s"
| "step fsum s (CheckAvailability r) = s"
| "step fsum s (GetUserAddresses uid) = s"
| "step fsum s (AddDeliveryAddress uid addr) = snd (add_delivery_address s uid addr)"

definition run :: "(double list \<Rightarrow> double) \<Rightarrow> stores \<Rightarrow> request list \<Rightarrow> stores" where
  "run fsum s rs = foldl (step fsum) s rs"

section \<open>Notions used by the properties\<close>

text \<open>
  The sum of quantity times price over the items of a cart, added in float arithmetic
  from left to right from \<open>acc\<close> on, as the running total of a cart is built up; it has
  no value when a quantity is beyond the range of a float.
\<close>

fun sum_costs :: "double \<Rightarrow> Product list \<Rightarrow> error + double" where
  "sum_costs acc [] = Inr acc"
| "sum_costs acc (item # rest) =
     (case mul_int_float (quantity item) (price item) of
        Inl e \<Rightarrow> Inl e
      | Inr c \<Rightarrow> sum_costs (fadd acc c) rest)"

text \<open>The user has no cart, or a cart without items.\<close>

definition cart_missing_or_empty :: "stores \<Rightarrow> str \<Rightarrow> bool" where
  "cart_missing_or_empty s uid =
     (case carts s uid of None \<Rightarrow> True | Some c \<Rightarrow> items c = [])"

subsection \<open>Sample data\<close>

text \<open>The user "u1", an order id "o1", and an address in Kyiv with the country
  spelled with a capital first letter (U+0423).\<close>

definition u1 :: str where
  "u1 = [117, 49]"

definition o1 :: str where
  "o1 = [111, 49]"

definition kyiv :: DeliveryAddress where
  "kyiv = \<lparr>addr_id = [97, 49], street = [83, 116, 46, 32, 49, 48], city = [75, 121, 105, 118],
            postal_code = [48, 49, 48, 48, 49],
            country = [1059, 1082, 1088, 1072, 1111, 1085, 1072]\<rparr>"

text \<open>Two products: "p1" at 10.0, twice, and "p2" at 3.0, once.\<close>

definition notebook :: Product where
  "notebook = \<lparr>prod_id = [112, 49], name = [110, 98], price = Num 10, quantity = 2\<rparr>"

definition pen :: Product where
  "pen = \<lparr>prod_id = [112, 50], name = [112, 101, 110], price = Num 3, quantity = 1\<rparr>"

definition two_item_stores :: stores where
  "two_item_stores =
     \<lparr>carts = [u1 \<mapsto> \<lparr>user_id = u1, items = [notebook, pen], total = Num 23\<rparr>],
      user_addresses = Map.empty, deliveries = Map.empty\<rparr>"

definition single_item_stores :: stores where
  "single_item_stores =
     \<lparr>carts = [u1 \<mapsto> \<lparr>user_id = u1, items = [notebook], total = Num 20\<rparr>],
      user_addresses = Map.empty, deliveries = Map.empty\<rparr>"

text \<open>A product whose quantity is too large for a float, and the stores that the one
  request adding it to the cart of "u1" leaves.\<close>

definition huge :: int where
  "huge = 2 ^ 1024"

definition bulk :: Product where
  "bulk = \<lparr>prod_id = [112, 57], name = [98], price = Num 1, quantity = huge\<rparr>"

definition bulk_stores :: stores where
  "bulk_stores = snd (add_product_to_cart empty_stores u1 bulk)"

text \<open>A second product with the id "p1" of the notebook, and a cart that holds both;
  a product with the id "p9" of the bulk item, and the stores after it was added to
  the cart that holds the bulk item.\<close>

definition twin :: Product where
  "twin = \<lparr>prod_id = [112, 49], name = [116], price = Num 3, quantity = 1\<rparr>"

definition twin_stores :: stores where
  "twin_stores =
     \<lparr>carts = [u1 \<mapsto> \<lparr>user_id = u1, items = [notebook, twin], total = Num 23\<rparr>],
      user_addresses = Map.empty, deliveries = Map.empty\<rparr>"

definition bulk_twin :: Product where
  "bulk_twin = \<lparr>prod_id = [112, 57], name = [116], price = Num 10, quantity = 2\<rparr>"

definition bulk_twin_stores :: stores where
  "bulk_twin_stores = snd (add_product_to_cart bulk_stores u1 bulk_twin)"

text \<open>Products at 1.0 and at \<open>2^53 = 9007199254740992.0\<close>, once each: the sums
  \<open>2^53 + 1\<close> are not doubles and round to \<open>2^53\<close>.\<close>

definition one_a :: Product where
  "one_a = \<lparr>prod_id = [97], name = [111], price = Num 1, quantity = 1\<rparr>"

definition one_c :: Product where
  "one_c = \<lparr>prod_id = [99], name = [111], price = Num 1, quantity = 1\<rparr>"

definition one_d :: Product where
  "one_d = \<lparr>prod_id = [100], name = [111], price = Num 1, quantity = 1\<rparr>"

definition big :: Product where
  "big = \<lparr>prod_id = [98], name = [98], price = Num 9007199254740992, quantity = 1\<rparr>"

definition big_then_one :: "request list" where
  "big_then_one = [AddProduct u1 big, AddProduct u1 one_c, RemoveProduct u1 (prod_id big)]"

definition ones_then_big :: "request list" where
  "ones_then_big = [AddProduct u1 one_a, AddProduct u1 one_c, AddProduct u1 big]"

text \<open>The stores these two sequences lead to from empty stores.\<close>

definition after_big_then_one :: stores where
  "after_big_then_one =
     \<lparr>carts = [u1 \<mapsto> \<lparr>user_id = u1, items = [one_c], total = Num 0\<rparr>],
      user_addresses = Map.empty, deliveries = Map.empty\<rparr>"

definition after_ones_then_big :: stores where
  "after_ones_then_big =
     \<lparr>carts = [u1 \<mapsto> \<lparr>user_id = u1, items = [one_a, one_c, big],
                       total = Num 9007199254740994\<rparr>],
      user_addresses = Map.empty, deliveries = Map.empty\<rparr>"

text \<open>Three products at 0.1, 1.1 and 0.1 (as doubles), once each, in a cart whose total
  is the running total of the three additions, 1.3000000000000003.\<close>

definition dime :: Product where
  "dime = \<lparr>prod_id = [100, 49], name = [100],
           price = Num (3602879701896397 / 36028797018963968), quantity = 1\<rparr>"

definition bun :: Product where
  "bun = \<lparr>prod_id = [98, 49], name = [98],
          price = Num (2476979795053773 / 2251799813685248), quantity = 1\<rparr>"

definition three_item_stores :: stores where
  "three_item_stores =
     \<lparr>carts = [u1 \<mapsto> \<lparr>user_id = u1, items = [dime, bun, dime],
                       total = Num (2927339757790823 / 2251799813685248)\<rparr>],
      user_addresses = Map.empty, deliveries = Map.empty\<rparr>"

subsection \<open>The cost of an item whose quantity is in the range of a float\<close>

definition in_float_range :: "int \<Rightarrow> bool" where
  "in_float_range n = (\<bar>n\<bar> < 2 ^ 1024 - 2 ^ 970)"

definition item_cost :: "Product \<Rightarrow> double" where
  "item_cost item = fmul (round_double (of_int (quantity item))) (price item)"

subsection \<open>Requests that neither remove a product nor add an unrepresentable quantity\<close>

fun no_removal_in_range :: "request \<Rightarrow> bool" where
  "no_removal_in_range (RemoveProduct uid pid) = False"
| "no_removal_in_range (AddProduct uid p) = in_float_range (quantity p)"
| "no_removal_in_range r = True"

text \<open>
  \<^verbatim>\<open>str.lower\<close> on strings over ASCII and the Cyrillic block U+0400 to U+045F (capitals
  U+0410 to U+042F are 32 below their small letters, U+0400 to U+040F are 80 below);
  used to instantiate the parameter \<open>lower\<close> on such strings.
\<close>

definition lower_cp :: "nat \<Rightarrow> nat" where
  "lower_cp c =
     (if 65 \<le> c \<and> c \<le> 90 then c + 32
      else if 1040 \<le> c \<and> c \<le> 1071 then c + 32
      else if 1024 \<le> c \<and> c \<le> 1039 then c + 80
      else c)"

definition lower_basic :: "str \<Rightarrow> str" where
  "lower_basic s = map lower_cp s"

text \<open>The request of the docstring of \<^verbatim>\<open>check_delivery_availability\<close>: region "East"
  with a capital first letter (U+0421), product "abc1231".\<close>

definition docstring_request :: AvailabilityCheckRequest where
  "docstring_request =
     \<lparr>region = [1057, 1093, 1110, 1076], product_id = [97, 98, 99, 49, 50, 51, 49]\<rparr>"

subsection \<open>The addresses a request sequence adds for a user\<close>

fun added_for :: "str \<Rightarrow> request list \<Rightarrow> DeliveryAddress list" where
  "added_for uid [] = []"
| "added_for uid (AddDeliveryAddress u a # rs) =
     (if u = uid then a # added_for uid rs else added_for uid rs)"
| "added_for uid (r # rs) = added_for uid rs"

section \<open>Evaluating float arithmetic\<close>

lemma bitlen_numeral:
  "bitlen 1 = 1"
  "bitlen (numeral Num.One) = 1"
  "bitlen (numeral (Num.Bit0 k)) = bitlen (numeral k) + 1"
  "bitlen (numeral (Num.Bit1 k)) = bitlen (numeral k) + 1"
  by (subst compute_bitlen, simp)+

lemma floor_rat_numeral:
  "\<lfloor>numeral a / numeral b :: rat\<rfloor> = numeral a div numeral b"
  "\<lfloor>1 / numeral b :: rat\<rfloor> = 1 div numeral b"
  "\<lceil>numeral a / numeral b :: rat\<rceil> = - (- numeral a div numeral b)"
  "\<lceil>1 / numeral b :: rat\<rceil> = - (- 1 div numeral b)"
  using floor_divide_of_int_eq [of "numeral a" "numeral b", where ?'a = rat]
        floor_divide_of_int_eq [of 1 "numeral b", where ?'a = rat]
        floor_divide_of_int_eq [of "- numeral a" "numeral b", where ?'a = rat]
        floor_divide_of_int_eq [of "- 1" "numeral b", where ?'a = rat]
  by (simp_all add: ceiling_def)

lemmas round_eval =
  round_double_def ilog2_def pow2_def round_half_even_def Let_def bitlen_numeral
  floor_rat_numeral


lemma round_double_zero [simp]: "round_double 0 = Num 0"
  by (simp add: round_double_def)

text \<open>
  Some values of the rounding: 0.1 is the double \<open>3602879701896397 / 2^55\<close>; a tie goes
  to the even neighbour (\<open>2^53 + 1\<close> down, \<open>2^53 + 3\<close> up); one third has 53 bits.
\<close>

lemma round_double_examples:
  "round_double (1 / 10) = Num (3602879701896397 / 36028797018963968)"
  "round_double (9007199254740992 + 1) = Num 9007199254740992"
  "round_double (9007199254740992 + 3) = Num 9007199254740996"
  "round_double (1 / 3) = Num (6004799503160661 / 18014398509481984)"
  "round_double (- (3 / 2)) = Num (- (3 / 2))"
  by (simp_all add: round_eval)

lemma round_double_small:
  "round_double 1 = Num 1" "round_double 2 = Num 2" "round_double 3 = Num 3"
  "round_double 5 = Num 5" "round_double 10 = Num 10" "round_double 20 = Num 20"
  "round_double 23 = Num 23" "round_double 25 = Num 25"
  by (simp_all add: round_eval)

lemma int_to_double_small:
  "int_to_double 1 = Inr (Num 1)" "int_to_double 2 = Inr (Num 2)"
  by (simp_all add: int_to_double_def round_double_small)

lemma cost_notebook: "mul_float_int (Num 10) 2 = Inr (Num 20)"
  by (simp add: mul_float_int_def int_to_double_small fmul_def is_inf_def is_zero_def
        fval_def round_double_small)

lemma cost_pen: "mul_float_int (Num 3) 1 = Inr (Num 3)"
  by (simp add: mul_float_int_def int_to_double_small fmul_def is_inf_def is_zero_def
        fval_def round_double_small)

section \<open>Errors of the handlers\<close>

text \<open>The only exception arithmetic can raise is \<^verbatim>\<open>OverflowError\<close>.\<close>

lemma int_to_double_error: "int_to_double n = Inl e \<Longrightarrow> e = OverflowError"
  by (auto simp: int_to_double_def split: if_splits)

lemma mul_float_int_error: "mul_float_int x n = Inl e \<Longrightarrow> e = OverflowError"
  by (auto simp: mul_float_int_def split: sum.splits dest: int_to_double_error)

lemma mul_int_float_error: "mul_int_float n x = Inl e \<Longrightarrow> e = OverflowError"
  by (auto simp: mul_int_float_def split: sum.splits dest: int_to_double_error)

lemma generator_costs_error: "generator_costs xs = Inl e \<Longrightarrow> e = OverflowError"
  by (induction xs) (auto split: sum.splits dest: mul_int_float_error)

subsection \<open>checkout\<close>

text \<open>
  Claim C3. Whatever the builtin \<^verbatim>\<open>sum\<close> computes, \<^verbatim>\<open>checkout\<close> raises the 400 error
  exactly when the user has no cart or the cart has no items, and then it returns with
  the stores untouched: in particular no \<^verbatim>\<open>DeliveryInfo\<close> is stored.
\<close>

theorem checkout_invalid_state_iff:
  "((\<exists>d. fst (checkout fsum s uid addr oid) = Inl (HTTPException 400 d))
      \<longleftrightarrow> cart_missing_or_empty s uid)
   \<and> (cart_missing_or_empty s uid \<longrightarrow>
        checkout fsum s uid addr oid = (Inl (HTTPException 400 detail_cart_empty), s))"
  by (auto simp: checkout_def cart_missing_or_empty_def Let_def
           split: option.splits sum.splits dest: generator_costs_error)

theorem checkout_invalid_state_witness:
  "cart_missing_or_empty empty_stores u1
   \<and> checkout sum_plain empty_stores u1 kyiv o1
       = (Inl (HTTPException 400 detail_cart_empty), empty_stores)
   \<and> checkout sum_compensated empty_stores u1 kyiv o1
       = (Inl (HTTPException 400 detail_cart_empty), empty_stores)"
  using checkout_invalid_state_iff [of sum_plain empty_stores u1 kyiv o1]
        checkout_invalid_state_iff [of sum_compensated empty_stores u1 kyiv o1]
  by (simp add: cart_missing_or_empty_def empty_stores_def)

subsection \<open>remove_product_from_cart\<close>





lemma remove_pen_two_item_stores:
  "fst (remove_product_from_cart two_item_stores u1 [112, 50])
     = Inr \<lparr>user_id = u1, items = [notebook], total = Num 20\<rparr>"
  by (simp add: remove_product_from_cart_def two_item_stores_def notebook_def pen_def
        Let_def cost_pen fsub_def round_double_small)



section \<open>Delivery cost and availability\<close>

text \<open>
  Claim C6. Whatever \<^verbatim>\<open>str.lower\<close> computes, \<^verbatim>\<open>calculate_delivery_cost\<close> answers 5.0 when
  the lower-cased country is the Ukrainian word for Ukraine and 15.0 otherwise; two
  requests with the same country get the same answer; and the empty country (which
  lower-cases to itself) costs 15.0.
\<close>

theorem calculate_delivery_cost_by_country:
  "cost (calculate_delivery_cost lower r)
     = (if lower (country (address r)) = ukraina then Num 5 else Num 15)
   \<and> (country (address r) = country (address r') \<longrightarrow>
        calculate_delivery_cost lower r = calculate_delivery_cost lower r')
   \<and> (lower [] = [] \<and> country (address r) = [] \<longrightarrow>
        cost (calculate_delivery_cost lower r) = Num 15)"
  by (simp add: calculate_delivery_cost_def ukraina_def)

theorem calculate_delivery_cost_witness:
  "cost (calculate_delivery_cost lower_basic \<lparr>address = kyiv\<rparr>) = Num 5
   \<and> cost (calculate_delivery_cost lower_basic
             \<lparr>address = kyiv\<lparr>country := [1059, 1050, 1056, 1040, 1031, 1053, 1040]\<rparr>\<rparr>) = Num 5
   \<and> lower_basic [] = []
   \<and> cost (calculate_delivery_cost lower_basic \<lparr>address = kyiv\<lparr>country := []\<rparr>\<rparr>) = Num 15
   \<and> cost (calculate_delivery_cost lower_basic
             \<lparr>address = kyiv\<lparr>country := [85, 107, 114, 97, 105, 110, 101]\<rparr>\<rparr>) = Num 15"
  using calculate_delivery_cost_by_country [of lower_basic "\<lparr>address = kyiv\<rparr>"]
        calculate_delivery_cost_by_country
          [of lower_basic "\<lparr>address = kyiv\<lparr>country := [1059, 1050, 1056, 1040, 1031, 1053, 1040]\<rparr>\<rparr>"]
        calculate_delivery_cost_by_country [of lower_basic "\<lparr>address = kyiv\<lparr>country := []\<rparr>\<rparr>"]
        calculate_delivery_cost_by_country
          [of lower_basic "\<lparr>address = kyiv\<lparr>country := [85, 107, 114, 97, 105, 110, 101]\<rparr>\<rparr>"]
  by (simp add: lower_basic_def lower_cp_def kyiv_def ukraina_def)

text \<open>
  Claim C7. Whatever \<^verbatim>\<open>str.lower\<close> computes, \<^verbatim>\<open>check_delivery_availability\<close> answers
  unavailable exactly when the lower-cased region is the Ukrainian word for East and the
  product id is not empty and ends in the digit 1 (code point 49); the message is the
  fixed one of the answer, and the two messages differ.
\<close>

theorem check_delivery_availability_iff:
  "(available (check_delivery_availability lower r) = False
      \<longleftrightarrow> lower (region r) = skhid \<and> product_id r \<noteq> [] \<and> last (product_id r) = 49)
   \<and> message (check_delivery_availability lower r)
       = (if available (check_delivery_availability lower r) then msg_available
          else msg_unavailable)
   \<and> msg_available \<noteq> msg_unavailable"
proof -
  have "endswith s digit_one \<longleftrightarrow> s \<noteq> [] \<and> last s = 49" for s
  proof (cases s rule: rev_cases)
    case Nil
    then show ?thesis by (simp add: endswith_def digit_one_def)
  next
    case (snoc ys y)
    then show ?thesis by (simp add: endswith_def digit_one_def)
  qed
  then show ?thesis
    by (simp add: check_delivery_availability_def msg_available_def msg_unavailable_def)
qed

lemma check_delivery_availability_docstring:
  "check_delivery_availability lower_basic docstring_request
     = \<lparr>available = False, message = msg_unavailable\<rparr>"
  "check_delivery_availability lower_basic (docstring_request\<lparr>product_id := [97, 50]\<rparr>)
     = \<lparr>available = True, message = msg_available\<rparr>"
  "check_delivery_availability lower_basic (docstring_request\<lparr>region := [87, 101, 115, 116]\<rparr>)
     = \<lparr>available = True, message = msg_available\<rparr>"
  by (simp_all add: check_delivery_availability_def docstring_request_def lower_basic_def
        lower_cp_def skhid_def endswith_def digit_one_def)

section \<open>The address store\<close>

lemma user_addresses_get_cart [simp]:
  "user_addresses (snd (get_cart s uid)) = user_addresses s"
  by (simp add: get_cart_def Let_def split: option.splits)

lemma user_addresses_add_product [simp]:
  "user_addresses (snd (add_product_to_cart s uid p)) = user_addresses s"
  by (simp add: add_product_to_cart_def Let_def split: option.splits sum.splits)

lemma user_addresses_remove_product [simp]:
  "user_addresses (snd (remove_product_from_cart s uid pid)) = user_addresses s"
  by (simp add: remove_product_from_cart_def Let_def split: option.splits sum.splits)

lemma user_addresses_checkout [simp]:
  "user_addresses (snd (checkout fsum s uid addr oid)) = user_addresses s"
  by (simp add: checkout_def Let_def split: option.splits sum.splits)

lemma get_user_addresses_step:
  "get_user_addresses (step fsum s r) uid = get_user_addresses s uid @ added_for uid [r]"
  by (cases r) (simp_all add: get_user_addresses_def add_delivery_address_def Let_def)

lemma added_for_Cons: "added_for uid (r # rs) = added_for uid [r] @ added_for uid rs"
  by (cases r) simp_all

lemma get_user_addresses_run:
  "get_user_addresses (run fsum s rs) uid = get_user_addresses s uid @ added_for uid rs"
proof (induction rs arbitrary: s)
  case Nil
  then show ?case by (simp add: run_def)
next
  case (Cons r rs)
  have "get_user_addresses (run fsum s (r # rs)) uid
      = get_user_addresses (run fsum (step fsum s r) rs) uid"
    by (simp add: run_def)
  also have "\<dots> = get_user_addresses (step fsum s r) uid @ added_for uid rs"
    by (rule Cons.IH)
  also have "\<dots> = get_user_addresses s uid @ added_for uid (r # rs)"
    by (simp add: get_user_addresses_step added_for_Cons [of uid r rs])
  finally show ?case .
qed

lemma added_for_own: "added_for uid (map (AddDeliveryAddress uid) as) = as"
  by (induction as) simp_all

text \<open>
  Claim C8. Whatever the builtin \<^verbatim>\<open>sum\<close> computes (it only enters the delivery cost of
  a checkout): from empty stores, after any sequence of requests the addresses of a user are
  the addresses added for that user, in call order; so \<open>N\<close> calls of
  \<^verbatim>\<open>add_delivery_address\<close> give exactly those \<open>N\<close> addresses. Each call returns the stored
  list with the new address at its end, which is the list stored afterwards (on the
  first call the list is created: the stored list was absent, read as empty). From any
  stores, a sequence of requests only appends to a user's list.
\<close>

theorem address_store_append_only:
  "get_user_addresses (run fsum empty_stores rs) uid = added_for uid rs
   \<and> get_user_addresses (run fsum empty_stores (map (AddDeliveryAddress uid) as)) uid = as
   \<and> length (get_user_addresses (run fsum empty_stores (map (AddDeliveryAddress uid) as)) uid)
       = length as
   \<and> fst (add_delivery_address s uid a) = get_user_addresses s uid @ [a]
   \<and> get_user_addresses (snd (add_delivery_address s uid a)) uid = get_user_addresses s uid @ [a]
   \<and> get_user_addresses (run fsum s rs) uid = get_user_addresses s uid @ added_for uid rs"
proof -
  have e: "get_user_addresses empty_stores uid = []"
    by (simp add: get_user_addresses_def empty_stores_def)
  show ?thesis
    using get_user_addresses_run [of fsum empty_stores rs uid]
          get_user_addresses_run [of fsum empty_stores "map (AddDeliveryAddress uid) as" uid]
          get_user_addresses_run [of fsum s rs uid] e
    by (simp add: added_for_own add_delivery_address_def Let_def get_user_addresses_def)
qed


section \<open>Quantities beyond the range of a float\<close>

lemma int_to_double_bulk: "int_to_double huge = Inl OverflowError"
  by (simp add: int_to_double_def huge_def)

lemma mul_float_int_bulk: "mul_float_int x huge = Inl OverflowError"
  by (simp add: mul_float_int_def int_to_double_bulk)

lemma mul_int_float_bulk: "mul_int_float huge x = Inl OverflowError"
  by (simp add: mul_int_float_def int_to_double_bulk)

lemma int_to_double_in_range:
  "in_float_range n \<Longrightarrow> int_to_double n = Inr (round_double (of_int n))"
  by (simp add: int_to_double_def in_float_range_def)

lemma bulk_stores_eq:
  "bulk_stores =
     \<lparr>carts = [u1 \<mapsto> \<lparr>user_id = u1, items = [bulk], total = Num 0\<rparr>],
      user_addresses = Map.empty, deliveries = Map.empty\<rparr>"
  by (simp add: bulk_stores_def add_product_to_cart_def empty_stores_def new_cart_def
        Let_def bulk_def mul_float_int_bulk)

section \<open>Atomicity of the error paths\<close>

text \<open>
  Claim C5, as stated, fails: \<^verbatim>\<open>remove_product_from_cart\<close> deletes the item before it
  multiplies price and quantity, so when the multiplication raises \<^verbatim>\<open>OverflowError\<close> the
  stores have changed. The stores here are the ones left by one \<^verbatim>\<open>add_product_to_cart\<close>
  request, which raised the same error after appending the item.
\<close>

theorem remove_product_not_atomic_counterexample:
  "fst (add_product_to_cart empty_stores u1 bulk) = Inl OverflowError
   \<and> snd (add_product_to_cart empty_stores u1 bulk) = bulk_stores
   \<and> bulk_stores \<noteq> empty_stores
   \<and> fst (remove_product_from_cart bulk_stores u1 (prod_id bulk)) = Inl OverflowError
   \<and> snd (remove_product_from_cart bulk_stores u1 (prod_id bulk)) \<noteq> bulk_stores
   \<and> carts (snd (remove_product_from_cart bulk_stores u1 (prod_id bulk))) u1
       = Some \<lparr>user_id = u1, items = [], total = Num 0\<rparr>"
proof -
  have a: "add_product_to_cart empty_stores u1 bulk = (Inl OverflowError, bulk_stores)"
    by (simp add: bulk_stores_eq add_product_to_cart_def empty_stores_def new_cart_def
          Let_def bulk_def mul_float_int_bulk)
  have r: "remove_product_from_cart bulk_stores u1 (prod_id bulk) =
      (Inl OverflowError,
       \<lparr>carts = [u1 \<mapsto> \<lparr>user_id = u1, items = [], total = Num 0\<rparr>],
        user_addresses = Map.empty, deliveries = Map.empty\<rparr>)"
    by (simp add: bulk_stores_eq remove_product_from_cart_def Let_def bulk_def
          mul_float_int_bulk)
  have n: "bulk_stores \<noteq> empty_stores"
  proof
    assume "bulk_stores = empty_stores"
    then have "carts bulk_stores u1 = carts empty_stores u1" by simp
    then show False by (simp add: bulk_stores_eq empty_stores_def)
  qed
  have m: "snd (remove_product_from_cart bulk_stores u1 (prod_id bulk)) \<noteq> bulk_stores"
  proof
    assume "snd (remove_product_from_cart bulk_stores u1 (prod_id bulk)) = bulk_stores"
    then have "carts (snd (remove_product_from_cart bulk_stores u1 (prod_id bulk))) u1
        = carts bulk_stores u1" by simp
    then show False by (simp add: r) (simp add: bulk_stores_eq)
  qed
  from a r n m show ?thesis by simp
qed

text \<open>
  Claim C5, amended. When \<^verbatim>\<open>remove_product_from_cart\<close> raises an \<^verbatim>\<open>HTTPException\<close> (its
  two 404 errors), and when \<^verbatim>\<open>checkout\<close> raises anything (whatever the builtin \<^verbatim>\<open>sum\<close>
  computes), the stores are exactly as before the call; \<^verbatim>\<open>add_product_to_cart\<close> raises no \<^verbatim>\<open>HTTPException\<close>. (The reader
  \<^verbatim>\<open>get_delivery_info\<close>, which also raises a 404, has no access to change the stores.)
\<close>

theorem http_errors_leave_stores:
  "(fst (remove_product_from_cart s uid pid) = Inl (HTTPException code d) \<longrightarrow>
      snd (remove_product_from_cart s uid pid) = s)
   \<and> (fst (checkout fsum s uid addr oid) = Inl e \<longrightarrow>
        snd (checkout fsum s uid addr oid) = s)
   \<and> fst (add_product_to_cart s uid p) \<noteq> Inl (HTTPException code d)"
  by (auto simp: remove_product_from_cart_def checkout_def add_product_to_cart_def Let_def
           split: option.splits sum.splits if_splits dest: mul_float_int_error)

theorem http_errors_leave_stores_witness:
  "fst (remove_product_from_cart two_item_stores u1 [122])
     = Inl (HTTPException 404 detail_product_not_found)
   \<and> snd (remove_product_from_cart two_item_stores u1 [122]) = two_item_stores
   \<and> fst (checkout sum_compensated empty_stores u1 kyiv o1)
       = Inl (HTTPException 400 detail_cart_empty)
   \<and> snd (checkout sum_compensated empty_stores u1 kyiv o1) = empty_stores"
proof -
  have 1: "fst (remove_product_from_cart two_item_stores u1 [122])
      = Inl (HTTPException 404 detail_product_not_found)"
    by (simp add: remove_product_from_cart_def two_item_stores_def notebook_def pen_def)
  have 2: "fst (checkout sum_compensated empty_stores u1 kyiv o1)
      = Inl (HTTPException 400 detail_cart_empty)"
    by (simp add: checkout_def empty_stores_def)
  from 1 2
    http_errors_leave_stores [where s = two_item_stores and uid = u1 and pid = "[122]"
      and code = 404 and d = detail_product_not_found]
    http_errors_leave_stores [where s = empty_stores and uid = u1 and addr = kyiv
      and oid = o1 and e = "HTTPException 400 detail_cart_empty" and fsum = sum_compensated]
  show ?thesis by simp
qed


section \<open>A successful checkout\<close>

lemma sum_costs_in_range:
  "\<forall>item\<in>set xs. in_float_range (quantity item) \<Longrightarrow>
     sum_costs acc xs = Inr (foldl fadd acc (map item_cost xs))"
  by (induction xs arbitrary: acc)
     (simp_all add: mul_int_float_def int_to_double_in_range item_cost_def)

lemma generator_costs_in_range:
  "\<forall>item\<in>set xs. in_float_range (quantity item) \<Longrightarrow>
     generator_costs xs = Inr (map item_cost xs)"
  by (induction xs)
     (simp_all add: mul_int_float_def int_to_double_in_range item_cost_def)

text \<open>
  The two builtin sums on the costs 0.1, 1.1, 0.1: the plain one returns
  1.3000000000000003, the compensated one 1.3; on a single cost they agree.
\<close>

lemma builtin_sums_three:
  "sum_plain [Num (3602879701896397 / 36028797018963968),
              Num (2476979795053773 / 2251799813685248),
              Num (3602879701896397 / 36028797018963968)]
     = Num (2927339757790823 / 2251799813685248)"
  "sum_compensated [Num (3602879701896397 / 36028797018963968),
                    Num (2476979795053773 / 2251799813685248),
                    Num (3602879701896397 / 36028797018963968)]
     = Num (5854679515581645 / 4503599627370496)"
  by (simp_all add: sum_plain_def sum_compensated_def fsub_def is_zero_def is_finite_def
        fval_def round_eval)

lemma builtin_sums_single:
  "sum_plain [Num 20] = Num 20" "sum_compensated [Num 20] = Num 20"
  by (simp_all add: sum_plain_def sum_compensated_def is_zero_def round_double_small)

text \<open>
  Claim C2, as stated, fails: a cart can hold an item whose quantity no float can
  represent (the failed \<^verbatim>\<open>add_product_to_cart\<close> request left it there), and then
  \<^verbatim>\<open>checkout\<close> raises \<^verbatim>\<open>OverflowError\<close> while it sums the costs, on either interpreter:
  it returns no \<^verbatim>\<open>DeliveryInfo\<close> and the cart keeps its item.
\<close>

theorem checkout_overflow_counterexample:
  "carts bulk_stores u1 = Some \<lparr>user_id = u1, items = [bulk], total = Num 0\<rparr>
   \<and> checkout sum_plain bulk_stores u1 kyiv o1 = (Inl OverflowError, bulk_stores)
   \<and> checkout sum_compensated bulk_stores u1 kyiv o1 = (Inl OverflowError, bulk_stores)"
  by (simp add: bulk_stores_eq checkout_def bulk_def mul_int_float_bulk)

text \<open>
  Claim C2, amended. When the user's cart exists, has at least one item and every
  quantity in it is in the range of a float, \<^verbatim>\<open>checkout\<close> returns a \<^verbatim>\<open>DeliveryInfo\<close> with
  the generated order id, the user, the given address, the status "Processing" and the
  delivery cost 5.0 plus the sum of quantity times price over the items, the sum being
  what the builtin \<^verbatim>\<open>sum\<close> of the interpreter returns for these products; it stores that
  record under the order id (where \<^verbatim>\<open>get_delivery_info\<close> finds it) and replaces the cart
  by an empty one, which a following \<^verbatim>\<open>get_cart\<close> returns without changing the stores.
\<close>

theorem checkout_success:
  assumes "carts s uid = Some c" and "items c \<noteq> []"
    and "\<forall>item\<in>set (items c). in_float_range (quantity item)"
  shows "\<exists>info s'.
     checkout fsum s uid addr oid = (Inr info, s')
     \<and> info = \<lparr>order_id = oid, info_user_id = uid, delivery_address = addr,
               delivery_cost = fadd (Num 5) (fsum (map item_cost (items c))),
               status = processing\<rparr>
     \<and> s' = s\<lparr>deliveries := (deliveries s)(oid \<mapsto> info),
              carts := (carts s)(uid \<mapsto> new_cart uid)\<rparr>
     \<and> get_delivery_info s' oid = Inr info
     \<and> get_cart s' uid = (\<lparr>user_id = uid, items = [], total = Num 0\<rparr>, s')"
  using assms generator_costs_in_range [OF assms(3)]
  by (simp add: checkout_def Let_def base_cost_def get_delivery_info_def get_cart_def
        new_cart_def)

lemma item_cost_notebook: "item_cost notebook = Num 20"
  by (simp add: item_cost_def notebook_def fmul_def is_inf_def is_zero_def fval_def
        round_double_small)

lemma item_cost_dime_bun:
  "item_cost dime = Num (3602879701896397 / 36028797018963968)"
  "item_cost bun = Num (2476979795053773 / 2251799813685248)"
  by (simp_all add: item_cost_def dime_def bun_def fmul_def is_inf_def is_zero_def fval_def
        round_double_small round_eval)

lemma delivery_cost_three:
  "round_double (14186338826217063 / 2251799813685248)
     = Num (1773292353277133 / 281474976710656)"
  "round_double (28372677652434125 / 4503599627370496)
     = Num (7093169413108531 / 1125899906842624)"
  by (simp_all add: round_eval)

text \<open>
  The cart of the claim, one item at 10.0 twice, costs 25.0 on either interpreter. The
  cart with the items at 0.1, 1.1 and 0.1 costs 6.300000000000001 with the plain sum
  and 6.3 with the compensated one.
\<close>

theorem checkout_success_witness:
  "carts single_item_stores u1 = Some \<lparr>user_id = u1, items = [notebook], total = Num 20\<rparr>
   \<and> in_float_range (quantity notebook)
   \<and> fst (checkout sum_plain single_item_stores u1 kyiv o1)
       = Inr \<lparr>order_id = o1, info_user_id = u1, delivery_address = kyiv,
              delivery_cost = Num 25, status = processing\<rparr>
   \<and> fst (checkout sum_compensated single_item_stores u1 kyiv o1)
       = Inr \<lparr>order_id = o1, info_user_id = u1, delivery_address = kyiv,
              delivery_cost = Num 25, status = processing\<rparr>
   \<and> fst (get_cart (snd (checkout sum_compensated single_item_stores u1 kyiv o1)) u1)
       = \<lparr>user_id = u1, items = [], total = Num 0\<rparr>
   \<and> fst (checkout sum_plain three_item_stores u1 kyiv o1)
       = Inr \<lparr>order_id = o1, info_user_id = u1, delivery_address = kyiv,
              delivery_cost = Num (1773292353277133 / 281474976710656),
              status = processing\<rparr>
   \<and> fst (checkout sum_compensated three_item_stores u1 kyiv o1)
       = Inr \<lparr>order_id = o1, info_user_id = u1, delivery_address = kyiv,
              delivery_cost = Num (7093169413108531 / 1125899906842624),
              status = processing\<rparr>"
proof -
  have c: "carts single_item_stores u1 = Some \<lparr>user_id = u1, items = [notebook], total = Num 20\<rparr>"
    by (simp add: single_item_stores_def)
  have q: "in_float_range (quantity notebook)"
    by (simp add: in_float_range_def notebook_def)
  have a: "\<forall>item\<in>set (items \<lparr>user_id = u1, items = [notebook], total = Num 20\<rparr>).
          in_float_range (quantity item)"
    using q by simp
  have c3: "carts three_item_stores u1
      = Some \<lparr>user_id = u1, items = [dime, bun, dime],
              total = Num (2927339757790823 / 2251799813685248)\<rparr>"
    by (simp add: three_item_stores_def)
  have a3: "\<forall>item\<in>set (items \<lparr>user_id = u1, items = [dime, bun, dime],
                                   total = Num (2927339757790823 / 2251799813685248)\<rparr>).
          in_float_range (quantity item)"
    by (simp add: in_float_range_def dime_def bun_def)
  from checkout_success [OF c _ a, of sum_plain kyiv o1]
       checkout_success [OF c _ a, of sum_compensated kyiv o1]
  have 1: "fst (checkout sum_plain single_item_stores u1 kyiv o1)
       = Inr \<lparr>order_id = o1, info_user_id = u1, delivery_address = kyiv,
              delivery_cost = Num 25, status = processing\<rparr>"
    and 2: "fst (checkout sum_compensated single_item_stores u1 kyiv o1)
       = Inr \<lparr>order_id = o1, info_user_id = u1, delivery_address = kyiv,
              delivery_cost = Num 25, status = processing\<rparr>"
    and 3: "fst (get_cart (snd (checkout sum_compensated single_item_stores u1 kyiv o1)) u1)
       = \<lparr>user_id = u1, items = [], total = Num 0\<rparr>"
    by (auto simp: item_cost_notebook builtin_sums_single round_double_small)
  from checkout_success [OF c3 _ a3, of sum_plain kyiv o1]
       checkout_success [OF c3 _ a3, of sum_compensated kyiv o1]
  have 4: "fst (checkout sum_plain three_item_stores u1 kyiv o1)
       = Inr \<lparr>order_id = o1, info_user_id = u1, delivery_address = kyiv,
              delivery_cost = Num (1773292353277133 / 281474976710656),
              status = processing\<rparr>"
    and 5: "fst (checkout sum_compensated three_item_stores u1 kyiv o1)
       = Inr \<lparr>order_id = o1, info_user_id = u1, delivery_address = kyiv,
              delivery_cost = Num (7093169413108531 / 1125899906842624),
              status = processing\<rparr>"
    by (auto simp: item_cost_dime_bun builtin_sums_three delivery_cost_three)
  from c q 1 2 3 4 5 show ?thesis by simp
qed

section \<open>Several items with one id\<close>

lemma find_skip: "\<forall>x\<in>set pre. \<not> P x \<Longrightarrow> find P (pre @ ys) = find P ys"
  by (induction pre) simp_all

lemma remove1_skip: "p \<notin> set pre \<Longrightarrow> remove1 p (pre @ p # post) = pre @ post"
  by (induction pre) auto

text \<open>
  Claim C10, as stated, fails where the first item of the id has a quantity no float
  can represent: \<^verbatim>\<open>remove_product_from_cart\<close> removes that item and then raises
  \<^verbatim>\<open>OverflowError\<close>, leaving the total as it was.
\<close>

theorem remove_duplicate_overflow_counterexample:
  "carts bulk_twin_stores u1
     = Some \<lparr>user_id = u1, items = [bulk, bulk_twin], total = Num 20\<rparr>
   \<and> prod_id bulk = prod_id bulk_twin
   \<and> fst (remove_product_from_cart bulk_twin_stores u1 (prod_id bulk)) = Inl OverflowError
   \<and> carts (snd (remove_product_from_cart bulk_twin_stores u1 (prod_id bulk))) u1
       = Some \<lparr>user_id = u1, items = [bulk_twin], total = Num 20\<rparr>"
proof -
  have "mul_float_int (Num 10) 2 = Inr (Num 20)"
    by (rule cost_notebook)
  then have e: "bulk_twin_stores =
     \<lparr>carts = [u1 \<mapsto> \<lparr>user_id = u1, items = [bulk, bulk_twin], total = Num 20\<rparr>],
      user_addresses = Map.empty, deliveries = Map.empty\<rparr>"
    by (simp add: bulk_twin_stores_def bulk_stores_eq add_product_to_cart_def
          Let_def bulk_def bulk_twin_def round_double_small)
  show ?thesis
    by (simp add: e remove_product_from_cart_def Let_def bulk_def bulk_twin_def
          mul_float_int_bulk)
qed

text \<open>
  Claim C10, amended. \<^verbatim>\<open>add_product_to_cart\<close> appends the product whatever ids the cart
  holds. When the items of a cart are \<open>pre @ p # post\<close> with \<open>p\<close> the first item of the
  id, \<^verbatim>\<open>remove_product_from_cart\<close> leaves the items \<open>pre @ post\<close>: one item fewer of that
  id, all of \<open>post\<close> kept. When \<open>price p * quantity p\<close> is computed, the call returns the
  cart with the total less that product; when it raises, the call raises
  \<^verbatim>\<open>OverflowError\<close> and the total stays.
\<close>

theorem remove_first_of_duplicates:
  assumes "carts s uid = Some c" and "items c = pre @ p # post"
    and "\<forall>x\<in>set pre. prod_id x \<noteq> pid" and "prod_id p = pid"
  shows "(\<exists>c'. carts (snd (add_product_to_cart s uid q)) uid = Some c'
            \<and> items c' = items c @ [q])
     \<and> (\<exists>c'. carts (snd (remove_product_from_cart s uid pid)) uid = Some c'
            \<and> user_id c' = user_id c \<and> items c' = pre @ post
            \<and> length (filter (\<lambda>x. prod_id x = pid) (items c'))
                = length (filter (\<lambda>x. prod_id x = pid) (items c)) - 1
            \<and> (case mul_float_int (price p) (quantity p) of
                  Inr cst \<Rightarrow>
                    fst (remove_product_from_cart s uid pid) = Inr c'
                    \<and> total c' = fsub (total c) cst
                | Inl e \<Rightarrow>
                    fst (remove_product_from_cart s uid pid) = Inl OverflowError
                    \<and> total c' = total c))"
proof -
  have f: "find (\<lambda>item. prod_id item = pid) (items c) = Some p"
    using assms(2-4) by (simp add: find_skip)
  have "p \<notin> set pre"
    using assms(3,4) by auto
  then have r: "remove1 p (items c) = pre @ post"
    using assms(2) by (simp add: remove1_skip)
  have n: "filter (\<lambda>x. prod_id x = pid) pre = []"
    using assms(3) by (simp add: filter_empty_conv)
  have a: "\<exists>c'. carts (snd (add_product_to_cart s uid q)) uid = Some c'
            \<and> items c' = items c @ [q]"
    using assms(1) by (simp add: add_product_to_cart_def Let_def split: sum.splits)
  have b: "\<exists>c'. carts (snd (remove_product_from_cart s uid pid)) uid = Some c'
            \<and> user_id c' = user_id c \<and> items c' = pre @ post
            \<and> length (filter (\<lambda>x. prod_id x = pid) (items c'))
                = length (filter (\<lambda>x. prod_id x = pid) (items c)) - 1
            \<and> (case mul_float_int (price p) (quantity p) of
                  Inr cst \<Rightarrow>
                    fst (remove_product_from_cart s uid pid) = Inr c'
                    \<and> total c' = fsub (total c) cst
                | Inl e \<Rightarrow>
                    fst (remove_product_from_cart s uid pid) = Inl OverflowError
                    \<and> total c' = total c)"
    using assms(1,2,4) f r n
    by (auto simp: remove_product_from_cart_def Let_def
             split: sum.splits dest: mul_float_int_error)
  from a b show ?thesis ..
qed

theorem remove_first_of_duplicates_witness:
  "carts twin_stores u1 = Some \<lparr>user_id = u1, items = [notebook, twin], total = Num 23\<rparr>
   \<and> prod_id notebook = prod_id twin
   \<and> fst (remove_product_from_cart twin_stores u1 (prod_id twin))
       = Inr \<lparr>user_id = u1, items = [twin], total = Num 3\<rparr>
   \<and> carts (snd (remove_product_from_cart twin_stores u1 (prod_id twin))) u1
       = Some \<lparr>user_id = u1, items = [twin], total = Num 3\<rparr>"
proof -
  have c: "carts twin_stores u1 = Some \<lparr>user_id = u1, items = [notebook, twin], total = Num 23\<rparr>"
    by (simp add: twin_stores_def)
  have i: "items \<lparr>user_id = u1, items = [notebook, twin], total = Num 23\<rparr> = [] @ notebook # [twin]"
    by simp
  have p: "prod_id notebook = prod_id twin"
    by (simp add: notebook_def twin_def)
  have m: "mul_float_int (price notebook) (quantity notebook) = Inr (Num 20)"
    by (simp add: notebook_def cost_notebook)
  have d: "fsub (Num 23) (Num 20) = Num 3"
    by (simp add: fsub_def round_double_small)
  from remove_first_of_duplicates [OF c i _ p, of twin] c p m d show ?thesis
    by (auto intro!: Cart.equality)
qed


section \<open>The running total\<close>

lemma fmul_commute: "fmul a b = fmul b a"
  by (auto simp: fmul_def mult.commute)

lemma add_product_in_range:
  "in_float_range (quantity p) \<Longrightarrow>
     add_product_to_cart s uid p =
       (let cart = (case carts s uid of Some c \<Rightarrow> c | None \<Rightarrow> new_cart uid);
            cart2 = cart\<lparr>items := items cart @ [p], total := fadd (total cart) (item_cost p)\<rparr>
        in (Inr cart2, s\<lparr>carts := (carts s)(uid \<mapsto> cart2)\<rparr>))"
  by (simp add: add_product_to_cart_def mul_float_int_def int_to_double_in_range item_cost_def
        Let_def fmul_commute [of "price p"])

lemma run_snoc: "run fsum s (rs @ [r]) = step fsum (run fsum s rs) r"
  by (simp add: run_def)

lemma run_Cons: "run fsum s (r # rs) = run fsum (step fsum s r) rs"
  by (simp add: run_def)

lemma round_double_big:
  "round_double 9007199254740992 = Num 9007199254740992"
  "round_double 9007199254740993 = Num 9007199254740992"
  "round_double 9007199254740994 = Num 9007199254740994"
  by (simp_all add: round_eval)

lemma fmul_by_one: "fmul (Num 9007199254740992) (Num 1) = Num 9007199254740992"
  "fmul (Num 1) (Num 1) = Num 1"
  by (simp_all add: fmul_def is_inf_def is_zero_def fval_def round_double_big round_double_small)

lemma cost_big: "mul_float_int (price big) (quantity big) = Inr (Num 9007199254740992)"
  by (simp add: big_def mul_float_int_def int_to_double_small fmul_by_one)

lemma cost_one:
  "mul_float_int (price one_a) (quantity one_a) = Inr (Num 1)"
  "mul_float_int (price one_c) (quantity one_c) = Inr (Num 1)"
  "mul_float_int (price one_d) (quantity one_d) = Inr (Num 1)"
  by (simp_all add: one_a_def one_c_def one_d_def mul_float_int_def int_to_double_small
        fmul_by_one)

text \<open>
  Claim C1, as stated, fails. Add an item at \<open>2^53\<close> and an item at 1.0: the total is
  \<open>2^53\<close>, since \<open>2^53 + 1\<close> rounds to \<open>2^53\<close>. Remove the first item: the total is
  \<open>2^53 - 2^53 = 0.0\<close>, while the cart still holds the item at 1.0, whose sum is 1.0.
  (No request of the sequence is a checkout, so the interpreter's \<^verbatim>\<open>sum\<close> plays no part.)
\<close>

theorem total_after_removal_counterexample:
  "run sum_plain empty_stores big_then_one = after_big_then_one
   \<and> run sum_compensated empty_stores big_then_one = after_big_then_one
   \<and> carts after_big_then_one u1
       = Some \<lparr>user_id = u1, items = [one_c], total = Num 0\<rparr>
   \<and> sum_costs (Num 0) [one_c] = Inr (Num 1)
   \<and> Inr (Num 0) \<noteq> sum_costs (Num 0) [one_c]"
proof -
  have 1: "snd (add_product_to_cart empty_stores u1 big) =
      \<lparr>carts = [u1 \<mapsto> \<lparr>user_id = u1, items = [big], total = Num 9007199254740992\<rparr>],
       user_addresses = Map.empty, deliveries = Map.empty\<rparr>"
    by (simp add: add_product_to_cart_def empty_stores_def new_cart_def Let_def cost_big
          round_double_big)
  have 2: "snd (add_product_to_cart
        \<lparr>carts = [u1 \<mapsto> \<lparr>user_id = u1, items = [big], total = Num 9007199254740992\<rparr>],
         user_addresses = Map.empty, deliveries = Map.empty\<rparr> u1 one_c) =
      \<lparr>carts = [u1 \<mapsto> \<lparr>user_id = u1, items = [big, one_c], total = Num 9007199254740992\<rparr>],
       user_addresses = Map.empty, deliveries = Map.empty\<rparr>"
    by (simp add: add_product_to_cart_def Let_def cost_one round_double_big)
  have f: "find (\<lambda>item. prod_id item = prod_id big) [big, one_c] = Some big"
    by simp
  have 3: "snd (remove_product_from_cart
        \<lparr>carts = [u1 \<mapsto> \<lparr>user_id = u1, items = [big, one_c], total = Num 9007199254740992\<rparr>],
         user_addresses = Map.empty, deliveries = Map.empty\<rparr> u1 (prod_id big)) =
      \<lparr>carts = [u1 \<mapsto> \<lparr>user_id = u1, items = [one_c], total = Num 0\<rparr>],
       user_addresses = Map.empty, deliveries = Map.empty\<rparr>"
    by (simp add: remove_product_from_cart_def Let_def f cost_big fsub_def)
  have s: "sum_costs (Num 0) [one_c] = Inr (Num 1)"
    using cost_one(2)
    by (simp add: mul_int_float_def mul_float_int_def fmul_commute [of "price one_c"]
          round_double_small split: sum.splits)
  from s show ?thesis
    by (simp add: big_then_one_def run_def 1 2 3 after_big_then_one_def)
qed

lemma step_keeps_totals:
  assumes "\<forall>uid c. carts s uid = Some c \<longrightarrow>
             (\<forall>item\<in>set (items c). in_float_range (quantity item))
             \<and> total c = foldl fadd (Num 0) (map item_cost (items c))"
    and "no_removal_in_range r"
  shows "\<forall>uid c. carts (step fsum s r) uid = Some c \<longrightarrow>
             (\<forall>item\<in>set (items c). in_float_range (quantity item))
             \<and> total c = foldl fadd (Num 0) (map item_cost (items c))"
proof (cases r)
  case (GetCart u)
  with assms(1) show ?thesis
    by (auto simp: get_cart_def new_cart_def Let_def split: option.splits)
next
  case (AddProduct u p)
  with assms(2) have q: "in_float_range (quantity p)" by simp
  from assms(1) q show ?thesis
    unfolding AddProduct step.simps add_product_in_range [OF q]
    by (auto simp: Let_def new_cart_def split: option.splits if_splits)
next
  case (RemoveProduct u pid)
  with assms(2) show ?thesis by simp
next
  case (Checkout u a oid)
  with assms(1) show ?thesis
    by (auto simp: checkout_def new_cart_def Let_def split: option.splits sum.splits if_splits)
next
  case (AddDeliveryAddress u a)
  with assms(1) show ?thesis
    by (simp add: add_delivery_address_def Let_def)
qed (use assms(1) in simp_all)

lemma run_keeps_totals:
  assumes "\<forall>uid c. carts s uid = Some c \<longrightarrow>
             (\<forall>item\<in>set (items c). in_float_range (quantity item))
             \<and> total c = foldl fadd (Num 0) (map item_cost (items c))"
    and "\<forall>r\<in>set rs. no_removal_in_range r"
  shows "\<forall>uid c. carts (run fsum s rs) uid = Some c \<longrightarrow>
             (\<forall>item\<in>set (items c). in_float_range (quantity item))
             \<and> total c = foldl fadd (Num 0) (map item_cost (items c))"
  using assms
proof (induction rs arbitrary: s)
  case Nil
  then show ?case by (simp add: run_def)
next
  case (Cons r rs)
  from Cons.prems have "no_removal_in_range r" and rest: "\<forall>r\<in>set rs. no_removal_in_range r"
    by simp_all
  from step_keeps_totals [OF Cons.prems(1) this(1)] rest
  show ?case
    unfolding run_Cons by (rule Cons.IH)
qed

lemma add_only_cart:
  "\<forall>p\<in>set ps. in_float_range (quantity p) \<Longrightarrow> ps \<noteq> [] \<Longrightarrow>
     carts (run fsum empty_stores (map (AddProduct uid) ps)) uid
       = Some \<lparr>user_id = uid, items = ps, total = foldl fadd (Num 0) (map item_cost ps)\<rparr>"
proof (induction ps rule: rev_induct)
  case Nil
  then show ?case by simp
next
  case (snoc x xs)
  from snoc.prems have q: "in_float_range (quantity x)" by simp
  show ?case
  proof (cases "xs = []")
    case True
    then show ?thesis
      by (simp add: run_def add_product_in_range [OF q] Let_def empty_stores_def new_cart_def)
  next
    case False
    with snoc have "carts (run fsum empty_stores (map (AddProduct uid) xs)) uid
       = Some \<lparr>user_id = uid, items = xs, total = foldl fadd (Num 0) (map item_cost xs)\<rparr>"
      by simp
    then show ?thesis
      by (simp add: run_snoc add_product_in_range [OF q] Let_def)
  qed
qed

text \<open>
  Claim C1, amended. Take a sequence of requests from empty stores in which no request
  removes a product and every added quantity is in the range of a float. Then, whatever
  the builtin \<^verbatim>\<open>sum\<close> computes at a checkout, the total of every cart is the sum of
  quantity times price over its items, added in float arithmetic from left to right. In particular, after
  adding the products \<open>ps\<close> to a fresh cart, the cart holds \<open>ps\<close> in order and its total
  is that sum over \<open>ps\<close>. (Equal means the same float; when a price is NaN both are NaN,
  of which Python's \<^verbatim>\<open>==\<close> does not hold.)
\<close>

theorem total_is_sum_without_removal:
  assumes "\<forall>r\<in>set rs. no_removal_in_range r"
  shows "(carts (run fsum empty_stores rs) uid = Some c \<longrightarrow>
            sum_costs (Num 0) (items c) = Inr (total c)
            \<and> total c = foldl fadd (Num 0) (map item_cost (items c)))
     \<and> ((\<forall>p\<in>set ps. in_float_range (quantity p)) \<and> ps \<noteq> [] \<longrightarrow>
            carts (run fsum empty_stores (map (AddProduct uid) ps)) uid
              = Some \<lparr>user_id = uid, items = ps,
                      total = foldl fadd (Num 0) (map item_cost ps)\<rparr>)"
proof -
  have "\<forall>uid c. carts empty_stores uid = Some c \<longrightarrow>
             (\<forall>item\<in>set (items c). in_float_range (quantity item))
             \<and> total c = foldl fadd (Num 0) (map item_cost (items c))"
    by (simp add: empty_stores_def)
  from run_keeps_totals [OF this assms]
  have "carts (run fsum empty_stores rs) uid = Some c \<longrightarrow>
            sum_costs (Num 0) (items c) = Inr (total c)
            \<and> total c = foldl fadd (Num 0) (map item_cost (items c))"
    by (auto simp: sum_costs_in_range)
  then show ?thesis
    by (auto simp: add_only_cart)
qed

lemma item_cost_pen: "item_cost pen = Num 3"
  by (simp add: item_cost_def pen_def fmul_def is_inf_def is_zero_def fval_def
        round_double_small)

theorem total_is_sum_witness:
  "no_removal_in_range (AddProduct u1 notebook)
   \<and> no_removal_in_range (AddProduct u1 pen)
   \<and> carts (run sum_plain empty_stores [AddProduct u1 notebook, AddProduct u1 pen]) u1
       = Some \<lparr>user_id = u1, items = [notebook, pen], total = Num 23\<rparr>
   \<and> carts (run sum_compensated empty_stores [AddProduct u1 notebook, AddProduct u1 pen]) u1
       = Some \<lparr>user_id = u1, items = [notebook, pen], total = Num 23\<rparr>
   \<and> sum_costs (Num 0) [notebook, pen] = Inr (Num 23)"
proof -
  have q: "in_float_range (quantity notebook)" "in_float_range (quantity pen)"
    by (simp_all add: in_float_range_def notebook_def pen_def)
  then have a: "\<forall>r\<in>set [AddProduct u1 notebook, AddProduct u1 pen]. no_removal_in_range r"
    by simp
  have t: "foldl fadd (Num 0) (map item_cost [notebook, pen]) = Num 23"
    by (simp add: item_cost_notebook item_cost_pen round_double_small)
  from q have b: "(\<forall>p\<in>set [notebook, pen]. in_float_range (quantity p)) \<and> [notebook, pen] \<noteq> []"
    by simp
  have 1: "carts (run sum_plain empty_stores [AddProduct u1 notebook, AddProduct u1 pen]) u1
       = Some \<lparr>user_id = u1, items = [notebook, pen], total = Num 23\<rparr>"
    using total_is_sum_without_removal [OF a, of sum_plain u1
      "\<lparr>user_id = u1, items = [notebook, pen], total = Num 23\<rparr>" "[notebook, pen]"] b t
    by simp
  have 2: "carts (run sum_compensated empty_stores [AddProduct u1 notebook, AddProduct u1 pen]) u1
       = Some \<lparr>user_id = u1, items = [notebook, pen], total = Num 23\<rparr>"
    using total_is_sum_without_removal [OF a, of sum_compensated u1
      "\<lparr>user_id = u1, items = [notebook, pen], total = Num 23\<rparr>" "[notebook, pen]"] b t
    by simp
  have 3: "sum_costs (Num 0) [notebook, pen] = Inr (Num 23)"
    using total_is_sum_without_removal [OF a, of sum_plain u1
      "\<lparr>user_id = u1, items = [notebook, pen], total = Num 23\<rparr>" "[notebook, pen]"] 1
    by simp
  from q 1 2 3 show ?thesis
    by simp
qed


section \<open>Removing an item and adding it again\<close>

text \<open>
  Claim C9, as stated, fails. Add two items at 1.0 and one at \<open>2^53\<close>: the total is
  \<open>2^53 + 2\<close>. Remove the first item: \<open>2^53 + 1\<close> is not a double and rounds to \<open>2^53\<close>.
  Add a product of the same price and quantity: \<open>2^53 + 1\<close> rounds to \<open>2^53\<close> again, so
  the total is 2 less than before the removal. (No request is a checkout, so the
  interpreter's \<^verbatim>\<open>sum\<close> plays no part.)
\<close>

theorem remove_then_add_counterexample:
  "run sum_plain empty_stores ones_then_big = after_ones_then_big
   \<and> run sum_compensated empty_stores ones_then_big = after_ones_then_big
   \<and> carts after_ones_then_big u1
       = Some \<lparr>user_id = u1, items = [one_a, one_c, big], total = Num 9007199254740994\<rparr>
   \<and> fst (remove_product_from_cart after_ones_then_big u1 (prod_id one_a))
       = Inr \<lparr>user_id = u1, items = [one_c, big], total = Num 9007199254740992\<rparr>
   \<and> price one_d = price one_a \<and> quantity one_d = quantity one_a
   \<and> fst (add_product_to_cart
            (snd (remove_product_from_cart after_ones_then_big u1 (prod_id one_a)))
            u1 one_d)
       = Inr \<lparr>user_id = u1, items = [one_c, big, one_d], total = Num 9007199254740992\<rparr>
   \<and> Num 9007199254740992 \<noteq> Num 9007199254740994"
proof -
  have 1: "snd (add_product_to_cart empty_stores u1 one_a) =
      \<lparr>carts = [u1 \<mapsto> \<lparr>user_id = u1, items = [one_a], total = Num 1\<rparr>],
       user_addresses = Map.empty, deliveries = Map.empty\<rparr>"
    by (simp add: add_product_to_cart_def empty_stores_def new_cart_def Let_def cost_one
          round_double_small)
  have 2: "snd (add_product_to_cart
        \<lparr>carts = [u1 \<mapsto> \<lparr>user_id = u1, items = [one_a], total = Num 1\<rparr>],
         user_addresses = Map.empty, deliveries = Map.empty\<rparr> u1 one_c) =
      \<lparr>carts = [u1 \<mapsto> \<lparr>user_id = u1, items = [one_a, one_c], total = Num 2\<rparr>],
       user_addresses = Map.empty, deliveries = Map.empty\<rparr>"
    by (simp add: add_product_to_cart_def Let_def cost_one round_double_small)
  have 3: "snd (add_product_to_cart
        \<lparr>carts = [u1 \<mapsto> \<lparr>user_id = u1, items = [one_a, one_c], total = Num 2\<rparr>],
         user_addresses = Map.empty, deliveries = Map.empty\<rparr> u1 big) =
      \<lparr>carts = [u1 \<mapsto> \<lparr>user_id = u1, items = [one_a, one_c, big],
                        total = Num 9007199254740994\<rparr>],
       user_addresses = Map.empty, deliveries = Map.empty\<rparr>"
    by (simp add: add_product_to_cart_def Let_def cost_big round_double_big)
  have r: "run fsum empty_stores ones_then_big = after_ones_then_big" for fsum
    by (simp add: ones_then_big_def run_def 1 2 3 after_ones_then_big_def)
  have f: "find (\<lambda>item. prod_id item = prod_id one_a) [one_a, one_c, big] = Some one_a"
    by simp
  have 4: "remove_product_from_cart
        \<lparr>carts = [u1 \<mapsto> \<lparr>user_id = u1, items = [one_a, one_c, big],
                         total = Num 9007199254740994\<rparr>],
         user_addresses = Map.empty, deliveries = Map.empty\<rparr> u1 (prod_id one_a) =
      (Inr \<lparr>user_id = u1, items = [one_c, big], total = Num 9007199254740992\<rparr>,
       \<lparr>carts = [u1 \<mapsto> \<lparr>user_id = u1, items = [one_c, big],
                        total = Num 9007199254740992\<rparr>],
        user_addresses = Map.empty, deliveries = Map.empty\<rparr>)"
    by (simp add: remove_product_from_cart_def Let_def f cost_one fsub_def round_double_big)
  have 5: "fst (add_product_to_cart
        \<lparr>carts = [u1 \<mapsto> \<lparr>user_id = u1, items = [one_c, big],
                         total = Num 9007199254740992\<rparr>],
         user_addresses = Map.empty, deliveries = Map.empty\<rparr> u1 one_d) =
      Inr \<lparr>user_id = u1, items = [one_c, big, one_d], total = Num 9007199254740992\<rparr>"
    by (simp add: add_product_to_cart_def Let_def cost_one round_double_big)
  have e: "price one_d = price one_a \<and> quantity one_d = quantity one_a"
    by (simp add: one_a_def one_d_def)
  from e show ?thesis
    by (simp add: r) (simp add: after_ones_then_big_def 4 5)
qed

text \<open>
  Claim C9, amended. After a successful \<^verbatim>\<open>remove_product_from_cart\<close> of the item \<open>p\<close> and
  an \<^verbatim>\<open>add_product_to_cart\<close> of a product with the price and quantity of \<open>p\<close>, the
  cart's total is \<open>(t - c) + c\<close> in float arithmetic, for the total \<open>t\<close> before the
  removal and \<open>c = price p * quantity p\<close>. It is \<open>t\<close> again whenever \<open>t\<close> and \<open>c\<close> are
  finite and the subtraction \<open>t - c\<close> is exact.
\<close>

theorem remove_then_add_total:
  assumes "carts s uid = Some c"
    and "find (\<lambda>item. prod_id item = pid) (items c) = Some p"
    and "remove_product_from_cart s uid pid = (Inr c1, s1)"
    and "price p' = price p" and "quantity p' = quantity p"
  shows "\<exists>cst c2 s2.
     mul_float_int (price p) (quantity p) = Inr cst
     \<and> total c1 = fsub (total c) cst
     \<and> add_product_to_cart s1 uid p' = (Inr c2, s2)
     \<and> carts s2 uid = Some c2
     \<and> items c2 = remove1 p (items c) @ [p']
     \<and> total c2 = fadd (fsub (total c) cst) cst
     \<and> (\<forall>t k. total c = Num t \<and> cst = Num k \<and> round_double t = Num t
                \<and> fsub (Num t) (Num k) = Num (t - k) \<longrightarrow> total c2 = total c)"
proof -
  from assms(1-3) obtain cst where cst: "mul_float_int (price p) (quantity p) = Inr cst"
    by (auto simp: remove_product_from_cart_def Let_def split: sum.splits)
  from assms(1-3) cst have c1: "c1 = c\<lparr>items := remove1 p (items c), total := fsub (total c) cst\<rparr>"
    and s1: "s1 = s\<lparr>carts := (carts s)(uid \<mapsto> c1)\<rparr>"
    by (auto simp: remove_product_from_cart_def Let_def)
  define c2 where "c2 = c1\<lparr>items := items c1 @ [p'], total := fadd (total c1) cst\<rparr>"
  define s2 where "s2 = s1\<lparr>carts := (carts s1)(uid \<mapsto> c2)\<rparr>"
  from cst assms(4,5) have a: "add_product_to_cart s1 uid p' = (Inr c2, s2)"
    by (simp add: add_product_to_cart_def Let_def s1 c2_def s2_def)
  have t2: "total c2 = fadd (fsub (total c) cst) cst"
    by (simp add: c2_def c1)
  have x: "total c2 = total c"
    if "total c = Num t" "cst = Num k" "round_double t = Num t"
       "fsub (Num t) (Num k) = Num (t - k)" for t k
    using that by (simp add: t2)
  from cst a t2 x show ?thesis
    by (intro exI [of _ cst] exI [of _ c2] exI [of _ s2]) (auto simp: c1 c2_def s2_def)
qed

theorem remove_then_add_total_witness:
  "carts two_item_stores u1 = Some \<lparr>user_id = u1, items = [notebook, pen], total = Num 23\<rparr>
   \<and> find (\<lambda>item. prod_id item = [112, 50]) [notebook, pen] = Some pen
   \<and> fst (remove_product_from_cart two_item_stores u1 [112, 50])
       = Inr \<lparr>user_id = u1, items = [notebook], total = Num 20\<rparr>
   \<and> round_double 23 = Num 23 \<and> fsub (Num 23) (Num 3) = Num (23 - 3)
   \<and> (\<exists>c2. fst (add_product_to_cart (snd (remove_product_from_cart two_item_stores u1 [112, 50]))
                 u1 (pen\<lparr>prod_id := [112, 51]\<rparr>)) = Inr c2
          \<and> items c2 = [notebook, pen\<lparr>prod_id := [112, 51]\<rparr>]
          \<and> total c2 = Num 23)"
proof -
  have c: "carts two_item_stores u1
      = Some \<lparr>user_id = u1, items = [notebook, pen], total = Num 23\<rparr>"
    by (simp add: two_item_stores_def)
  have f: "find (\<lambda>item. prod_id item = [112, 50])
      (items \<lparr>user_id = u1, items = [notebook, pen], total = Num 23\<rparr>) = Some pen"
    by (simp add: notebook_def pen_def)
  have r: "remove_product_from_cart two_item_stores u1 [112, 50]
      = (Inr \<lparr>user_id = u1, items = [notebook], total = Num 20\<rparr>,
         snd (remove_product_from_cart two_item_stores u1 [112, 50]))"
    using remove_pen_two_item_stores by (simp add: prod_eq_iff)
  have d: "fsub (Num 23) (Num 3) = Num (23 - 3)"
    by (simp add: fsub_def round_double_small)
  have m: "mul_float_int (price pen) (quantity pen) = Inr (Num 3)"
    by (simp add: pen_def cost_pen)
  have n: "notebook \<noteq> pen"
    by (simp add: notebook_def pen_def)
  from remove_then_add_total [OF c f r, of "pen\<lparr>prod_id := [112, 51]\<rparr>"]
  obtain cst c2 s2 where
    h: "mul_float_int (price pen) (quantity pen) = Inr cst"
       "add_product_to_cart (snd (remove_product_from_cart two_item_stores u1 [112, 50])) u1
          (pen\<lparr>prod_id := [112, 51]\<rparr>) = (Inr c2, s2)"
       "items c2 = remove1 pen (items \<lparr>user_id = u1, items = [notebook, pen], total = Num 23\<rparr>)
          @ [pen\<lparr>prod_id := [112, 51]\<rparr>]"
       "\<forall>t k. total \<lparr>user_id = u1, items = [notebook, pen], total = Num 23\<rparr> = Num t
              \<and> cst = Num k \<and> round_double t = Num t
              \<and> fsub (Num t) (Num k) = Num (t - k)
           \<longrightarrow> total c2 = total \<lparr>user_id = u1, items = [notebook, pen], total = Num 23\<rparr>"
    by auto
  from h(1) m have k: "cst = Num 3" by simp
  from h(4) k d have "total c2 = Num 23"
    by (simp add: round_double_small)
  moreover have "find (\<lambda>item. prod_id item = [112, 50]) [notebook, pen] = Some pen"
    by (simp add: notebook_def pen_def)
  ultimately show ?thesis
    using h(2,3) n c d remove_pen_two_item_stores
    by (simp add: round_double_small)
qed

end
